theory Spec2Isabelle
  imports Main "HOL-Library.Sublist"
begin

section \<open>Python values used by the bot\<close>

text \<open>
  A Python \<open>str\<close> is modelled as a \<^typ>\<open>string\<close> holding its UTF-8 bytes: an ASCII
  character is one \<^typ>\<open>char\<close>, any other character is the two to four bytes of its
  encoding. No encoding is the beginning of another, and the first byte of an encoding
  never occurs inside one, so searching, replacing and trimming well-formed pieces gives
  the same result on the bytes as on the characters.
\<close>

datatype py_error = AttributeError | IndexError | KeyError | ValueError

text \<open>\<open>sep.join(xs)\<close>\<close>

fun join :: "string \<Rightarrow> string list \<Rightarrow> string" where
  "join sep [] = []"
| "join sep [x] = x"
| "join sep (x # y # ys) = x @ sep @ join sep (y # ys)"

text \<open>
  \<open>s.lower()\<close>. The characters whose lower case is an ASCII letter are that letter, its
  capital, and for \<open>k\<close> the Kelvin sign U+212A; the model maps these. Every other
  character beyond ASCII has a lower case beyond ASCII, and the model leaves it as it is:
  the bot only compares a lower-cased text with texts of ASCII letters, digits and spaces
  (the three choices of the game, the answers of the catalogue), and such a comparison
  fails in Python and in the model alike.
\<close>

definition lower_char :: "char \<Rightarrow> char" where
  "lower_char c =
     (case map_of (zip ''ABCDEFGHIJKLMNOPQRSTUVWXYZ'' ''abcdefghijklmnopqrstuvwxyz'') c of
        Some d \<Rightarrow> d
      | None \<Rightarrow> c)"

definition kelvin_sign :: string where \<comment> \<open>U+212A\<close>
  "kelvin_sign = [CHR 0xE2, CHR 0x84, CHR 0xAA]"

fun lower :: "string \<Rightarrow> string" where
  "lower (a # b # c # s) =
     (if [a, b, c] = kelvin_sign then CHR ''k'' # lower s
      else lower_char a # lower (b # c # s))"
| "lower (a # s) = lower_char a # lower s"
| "lower [] = []"

text \<open>
  \<open>s.strip()\<close> removes the white space at both ends. The white space of Python is the
  29 characters U+0009 to U+000D, U+001C to U+0020, U+0085, U+00A0, U+1680, U+2000 to
  U+200A, U+2028, U+2029, U+202F, U+205F and U+3000, here in UTF-8.
\<close>

definition whitespace :: "string list" where
  "whitespace =
     [[CHR 0x09], [CHR 0x0A], [CHR 0x0B], [CHR 0x0C], [CHR 0x0D],
      [CHR 0x1C], [CHR 0x1D], [CHR 0x1E], [CHR 0x1F], [CHR 0x20],
      [CHR 0xC2, CHR 0x85], [CHR 0xC2, CHR 0xA0], [CHR 0xE1, CHR 0x9A, CHR 0x80],
      [CHR 0xE2, CHR 0x80, CHR 0x80], [CHR 0xE2, CHR 0x80, CHR 0x81],
      [CHR 0xE2, CHR 0x80, CHR 0x82], [CHR 0xE2, CHR 0x80, CHR 0x83],
      [CHR 0xE2, CHR 0x80, CHR 0x84], [CHR 0xE2, CHR 0x80, CHR 0x85],
      [CHR 0xE2, CHR 0x80, CHR 0x86], [CHR 0xE2, CHR 0x80, CHR 0x87],
      [CHR 0xE2, CHR 0x80, CHR 0x88], [CHR 0xE2, CHR 0x80, CHR 0x89],
      [CHR 0xE2, CHR 0x80, CHR 0x8A], [CHR 0xE2, CHR 0x80, CHR 0xA8],
      [CHR 0xE2, CHR 0x80, CHR 0xA9], [CHR 0xE2, CHR 0x80, CHR 0xAF],
      [CHR 0xE2, CHR 0x81, CHR 0x9F], [CHR 0xE3, CHR 0x80, CHR 0x80]]"

text \<open>Removing, as long as there is one, a piece of \<open>ws\<close> that the text starts with.\<close>

function drop_leading :: "string list \<Rightarrow> string \<Rightarrow> string" where
  "drop_leading ws s =
     (case find (\<lambda>w. w \<noteq> [] \<and> prefix w s) ws of
        None \<Rightarrow> s
      | Some w \<Rightarrow> drop_leading ws (drop (length w) s))"
  by pat_completeness auto
termination
  by (relation "measure (\<lambda>(ws, s). length s)") (auto simp: find_Some_iff prefix_def)

declare drop_leading.simps [simp del]

definition strip :: "string \<Rightarrow> string" where
  "strip s = rev (drop_leading (map rev whitespace) (rev (drop_leading whitespace s)))"

text \<open>\<open>sub in s\<close>: \<open>sub\<close> occurs in \<open>s\<close> as a contiguous piece.\<close>

fun contains :: "string \<Rightarrow> string \<Rightarrow> bool" where
  "contains [] sub = (sub = [])"
| "contains (c # cs) sub = (prefix sub (c # cs) \<or> contains cs sub)"

text \<open>
  \<open>s.replace(old, new)\<close>: every occurrence of \<open>old\<close>, found from the left and not
  overlapping the one before, is replaced. With an empty \<open>old\<close> Python puts \<open>new\<close>
  before every character and at the end.
\<close>

fun replace :: "string \<Rightarrow> string \<Rightarrow> string \<Rightarrow> string" where
  "replace s old new =
     (if old = [] then new @ concat (map (\<lambda>c. c # new) s)
      else if s = [] then []
      else if prefix old s then new @ replace (drop (length old) s) old new
      else hd s # replace (tl s) old new)"

declare replace.simps [simp del]

text \<open>\<open>str(n)\<close> for an integer: its decimal digits, with a minus sign below zero.\<close>

fun str_nat :: "nat \<Rightarrow> string" where
  "str_nat n =
     (if n < 10 then [''0123456789'' ! n]
      else str_nat (n div 10) @ [''0123456789'' ! (n mod 10)])"

declare str_nat.simps [simp del]

definition str_int :: "int \<Rightarrow> string" where
  "str_int i = (if i < 0 then CHR ''-'' # str_nat (nat (- i)) else str_nat (nat i))"

text \<open>
  \<open>xs[i]\<close>: a negative index counts from the end, an index out of range raises
  \<open>IndexError\<close>.
\<close>

definition py_index :: "'a list \<Rightarrow> int \<Rightarrow> py_error + 'a" where
  "py_index xs i =
     (if 0 \<le> i \<and> i < int (length xs) then Inr (xs ! nat i)
      else if i < 0 \<and> - int (length xs) \<le> i then Inr (xs ! nat (int (length xs) + i))
      else Inl IndexError)"

text \<open>\<open>d[k]\<close> on a dictionary written as a list of pairs: a missing key raises \<open>KeyError\<close>.\<close>

definition py_lookup :: "('k \<times> 'v) list \<Rightarrow> 'k \<Rightarrow> py_error + 'v" where
  "py_lookup d k = (case map_of d k of None \<Rightarrow> Inl KeyError | Some v \<Rightarrow> Inr v)"

subsection \<open>The random source\<close>

text \<open>
  The module \<open>random\<close> is not part of the repository. Its generator is a parameter of
  every handler that draws: \<open>raw\<close>, the natural number the generator gives for this
  draw. \<open>random.randint(a, b)\<close> is \<open>a\<close> plus a number below \<open>b - a + 1\<close> (it raises
  \<open>ValueError\<close> on an empty range), and \<open>random.choice(xs)\<close> is the element of \<open>xs\<close> at an
  index below \<open>len(xs)\<close> (it raises \<open>IndexError\<close> on an empty list). The number below
  \<open>n\<close> is \<open>raw mod n\<close>, so each outcome of the library is the outcome of some draw.
\<close>

definition randint :: "int \<Rightarrow> int \<Rightarrow> nat \<Rightarrow> py_error + int" where
  "randint a b raw =
     (if b < a then Inl ValueError else Inr (a + int (raw mod nat (b - a + 1))))"

definition choice :: "'a list \<Rightarrow> nat \<Rightarrow> py_error + 'a" where
  "choice xs raw = (if xs = [] then Inl IndexError else Inr (xs ! (raw mod length xs)))"

section \<open>The bot's handlers\<close>

text \<open>
  A handler's effects are the calls it makes, in order: a reply sent to the chat
  (\<open>reply_text\<close>), a request to the text generator (\<open>model.generate_content\<close>), a line
  written to the error log. A reply is taken to be delivered: a failure of the transport
  is not modelled. The generator is a parameter: for a prompt it gives the text of the
  response, or fails with an exception, kept as its description \<open>str(e)\<close>.
\<close>

datatype call = Reply string | Generate string | LogError string

type_synonym generator = "string \<Rightarrow> string + string"

fun is_generate :: "call \<Rightarrow> bool" where
  "is_generate (Generate p) = True"
| "is_generate c = False"

subsection \<open>The emoji of the reply texts, as UTF-8\<close>

definition nl :: string where "nl = [CHR 0x0A]"

definition thinking_face :: string where \<comment> \<open>U+1F914\<close>
  "thinking_face = [CHR 0xF0, CHR 0x9F, CHR 0xA4, CHR 0x94]"

definition cross_mark :: string where \<comment> \<open>U+274C\<close>
  "cross_mark = [CHR 0xE2, CHR 0x9D, CHR 0x8C]"

definition game_die :: string where \<comment> \<open>U+1F3B2\<close>
  "game_die = [CHR 0xF0, CHR 0x9F, CHR 0x8E, CHR 0xB2]"

definition coin :: string where \<comment> \<open>U+1FA99\<close>
  "coin = [CHR 0xF0, CHR 0x9F, CHR 0xAA, CHR 0x99]"

definition radio_button :: string where \<comment> \<open>U+1F518\<close>
  "radio_button = [CHR 0xF0, CHR 0x9F, CHR 0x94, CHR 0x98]"

definition crystal_ball :: string where \<comment> \<open>U+1F52E\<close>
  "crystal_ball = [CHR 0xF0, CHR 0x9F, CHR 0x94, CHR 0xAE]"

definition raised_fist :: string where \<comment> \<open>U+270A\<close>
  "raised_fist = [CHR 0xE2, CHR 0x9C, CHR 0x8A]"

definition raised_hand :: string where \<comment> \<open>U+270B\<close>
  "raised_hand = [CHR 0xE2, CHR 0x9C, CHR 0x8B]"

definition victory_hand :: string where \<comment> \<open>U+270C U+FE0F\<close>
  "victory_hand = [CHR 0xE2, CHR 0x9C, CHR 0x8C, CHR 0xEF, CHR 0xB8, CHR 0x8F]"

definition handshake :: string where \<comment> \<open>U+1F91D\<close>
  "handshake = [CHR 0xF0, CHR 0x9F, CHR 0xA4, CHR 0x9D]"

definition party_popper :: string where \<comment> \<open>U+1F389\<close>
  "party_popper = [CHR 0xF0, CHR 0x9F, CHR 0x8E, CHR 0x89]"

definition robot_face :: string where \<comment> \<open>U+1F916\<close>
  "robot_face = [CHR 0xF0, CHR 0x9F, CHR 0xA4, CHR 0x96]"

definition check_mark :: string where \<comment> \<open>U+2705\<close>
  "check_mark = [CHR 0xE2, CHR 0x9C, CHR 0x85]"

definition question_mark :: string where \<comment> \<open>U+2753\<close>
  "question_mark = [CHR 0xE2, CHR 0x9D, CHR 0x93]"

subsection \<open>\<open>ask_gemini\<close>: the command /ask\<close>

definition ask_gemini :: "generator \<Rightarrow> string list \<Rightarrow> call list" where
  "ask_gemini model args =
     (if args = [] then
        [Reply ''Please provide a question! Example: /ask What is Python?'']
      else
        let question = join '' '' args in
        Reply (thinking_face @ '' Thinking...'') # Generate question #
          (case model question of
             Inr response_text \<Rightarrow> [Reply response_text]
           | Inl e \<Rightarrow>
               [LogError (''Gemini API error: '' @ e),
                Reply (cross_mark @ '' Error: '' @ e)]))"

subsection \<open>\<open>handle_group_message\<close>: free text in a group\<close>

text \<open>
  Of the update the handler reads the text of the message (\<open>None\<close> when it has none) and
  the sender of the message it replies to (\<open>None\<close> when it replies to none); of the bot,
  its user name and its identifier. \<open>message.text.replace\<close> on a message without text
  raises \<open>AttributeError\<close>.
\<close>

definition handle_group_message ::
  "generator \<Rightarrow> string \<Rightarrow> int \<Rightarrow> string option \<Rightarrow> int option \<Rightarrow> py_error + call list" where
  "handle_group_message model bot_username bot_id message_text reply_to_sender =
     (let is_mentioned =
            (case message_text of
               None \<Rightarrow> False
             | Some t \<Rightarrow> if t = [] then False else contains t (''@'' @ bot_username));
          is_reply_to_bot =
            (case reply_to_sender of None \<Rightarrow> False | Some sender \<Rightarrow> sender = bot_id)
      in
        if \<not> (is_mentioned \<or> is_reply_to_bot) then Inr []
        else
          case message_text of
            None \<Rightarrow> Inl AttributeError
          | Some t \<Rightarrow>
              let text = strip (replace t (''@'' @ bot_username) []) in
              if text = [] then Inr [Reply ''Yes? How can I help you?'']
              else
                (case model text of
                   Inr response_text \<Rightarrow> Inr [Generate text, Reply response_text]
                 | Inl e \<Rightarrow>
                     Inr [Generate text,
                          LogError (''Gemini API error: '' @ e),
                          Reply (cross_mark @ '' Sorry, I encountered an error: '' @ e)]))"

subsection \<open>\<open>roll_dice\<close> and \<open>flip_coin\<close>\<close>

definition dice_faces :: "string list" where \<comment> \<open>U+2680 to U+2685\<close>
  "dice_faces =
     [[CHR 0xE2, CHR 0x9A, CHR 0x80], [CHR 0xE2, CHR 0x9A, CHR 0x81],
      [CHR 0xE2, CHR 0x9A, CHR 0x82], [CHR 0xE2, CHR 0x9A, CHR 0x83],
      [CHR 0xE2, CHR 0x9A, CHR 0x84], [CHR 0xE2, CHR 0x9A, CHR 0x85]]"

definition roll_dice :: "nat \<Rightarrow> py_error + call list" where
  "roll_dice raw =
     (case randint 1 6 raw of
        Inl e \<Rightarrow> Inl e
      | Inr result \<Rightarrow>
          (case py_index dice_faces (result - 1) of
             Inl e \<Rightarrow> Inl e
           | Inr dice_emoji \<Rightarrow>
               Inr [Reply (game_die @ '' You rolled: '' @ dice_emoji @
                           '' ('' @ str_int result @ '')'')]))"

definition flip_coin :: "nat \<Rightarrow> py_error + call list" where
  "flip_coin raw =
     (case choice [''Heads'', ''Tails''] raw of
        Inl e \<Rightarrow> Inl e
      | Inr result \<Rightarrow>
          let emoji = (if result = ''Heads'' then coin else radio_button) in
          Inr [Reply (emoji @ '' The coin landed on: **'' @ result @ ''**!'')])"

subsection \<open>\<open>magic_8ball\<close>\<close>

definition responses :: "string list" where
  "responses =
     [''Yes, definitely!'', ''It is certain.'', ''Without a doubt.'',
      ''You may rely on it.'', ''As I see it, yes.'', ''Most likely.'',
      ''Outlook good.'', ''Signs point to yes.'', ''Reply hazy, try again.'',
      ''Ask again later.'', ''Better not tell you now.'', ''Cannot predict now.'',
      ''Concentrate and ask again.'', ''Don't count on it.'', ''My reply is no.'',
      ''My sources say no.'', ''Outlook not so good.'', ''Very doubtful.'']"

definition magic_8ball :: "string list \<Rightarrow> nat \<Rightarrow> py_error + call list" where
  "magic_8ball args raw =
     (if args = [] then
        Inr [Reply (crystal_ball @ '' Ask the magic 8-ball a yes/no question!'' @ nl @
                    ''Example: /8ball Will I win?'')]
      else
        case choice responses raw of
          Inl e \<Rightarrow> Inl e
        | Inr result \<Rightarrow>
            Inr [Reply (crystal_ball @ '' The magic 8-ball says: **'' @ result @ ''**'')])"

subsection \<open>\<open>rock_paper_scissors\<close>\<close>

definition choices :: "string list" where
  "choices = [''rock'', ''paper'', ''scissors'']"

definition emoji_map :: "(string \<times> string) list" where
  "emoji_map =
     [(''rock'', raised_fist), (''paper'', raised_hand), (''scissors'', victory_hand)]"

text \<open>The chain of comparisons under the comment \<open>Determine winner\<close>.\<close>

definition rps_result :: "string \<Rightarrow> string \<Rightarrow> string" where
  "rps_result user_choice bot_choice =
     (if user_choice = bot_choice then ''It's a tie! '' @ handshake
      else if (user_choice = ''rock'' \<and> bot_choice = ''scissors'') \<or>
              (user_choice = ''paper'' \<and> bot_choice = ''rock'') \<or>
              (user_choice = ''scissors'' \<and> bot_choice = ''paper'')
        then ''You win! '' @ party_popper
      else ''I win! '' @ robot_face)"

definition rps_usage :: string where
  "rps_usage =
     raised_fist @ raised_hand @ victory_hand @ '' Choose rock, paper, or scissors!'' @ nl @
     ''Example: /rps rock''"

definition rock_paper_scissors :: "string list \<Rightarrow> nat \<Rightarrow> py_error + call list" where
  "rock_paper_scissors args raw =
     (if args = [] \<or> lower (hd args) \<notin> set choices then Inr [Reply rps_usage]
      else
        let user_choice = lower (hd args) in
        case choice choices raw of
          Inl e \<Rightarrow> Inl e
        | Inr bot_choice \<Rightarrow>
            let result = rps_result user_choice bot_choice in
            (case py_lookup emoji_map user_choice of
               Inl e \<Rightarrow> Inl e
             | Inr user_emoji \<Rightarrow>
                 (case py_lookup emoji_map bot_choice of
                    Inl e \<Rightarrow> Inl e
                  | Inr bot_emoji \<Rightarrow>
                      Inr [Reply (''You chose: '' @ user_emoji @ '' '' @ user_choice @ nl @
                                  ''I chose: '' @ bot_emoji @ '' '' @ bot_choice @ nl @ nl @
                                  result)])))"

subsection \<open>\<open>trivia\<close> and the store \<open>game_state\<close>\<close>

text \<open>
  \<open>game_state\<close> is a dictionary from a chat identifier to a dictionary of that chat's
  fields; the only field the bot writes is \<open>trivia_answer\<close>. It starts empty.
\<close>

type_synonym game_state = "int \<rightharpoonup> (string \<rightharpoonup> string)"

definition game_state0 :: game_state where
  "game_state0 = Map.empty"

datatype question = Question (question_q: string) (question_a: string)

definition questions :: "question list" where
  "questions =
     [Question ''What is the capital of France?'' ''Paris'',
      Question ''What is 2 + 2?'' ''4'',
      Question ''What is the largest planet in our solar system?'' ''Jupiter'',
      Question ''Who painted the Mona Lisa?'' ''Leonardo da Vinci'',
      Question ''What is the smallest prime number?'' ''2'',
      Question ''In what year did World War II end?'' ''1945'',
      Question ''What is the chemical symbol for gold?'' ''Au'',
      Question ''How many continents are there?'' ''7'']"

text \<open>
  The test of the handler's first \<open>if\<close>:
  \<open>chat_id in game_state and 'trivia_answer' in game_state[chat_id]\<close>.
\<close>

definition pending :: "game_state \<Rightarrow> int \<Rightarrow> bool" where
  "pending gs chat_id =
     (case gs chat_id of None \<Rightarrow> False | Some fields \<Rightarrow> fields ''trivia_answer'' \<noteq> None)"

text \<open>The text of the reply that asks a question.\<close>

definition question_reply :: "question \<Rightarrow> string" where
  "question_reply question_data =
     question_mark @ '' Trivia Question:'' @ nl @ nl @
     question_q question_data @ nl @ nl @
     ''Reply with: /trivia [your answer]''"

text \<open>The block under the comment \<open>New question\<close>, which both other paths fall into.\<close>

definition new_question :: "game_state \<Rightarrow> int \<Rightarrow> nat \<Rightarrow> py_error + game_state \<times> call list" where
  "new_question gs chat_id raw =
     (case choice questions raw of
        Inl e \<Rightarrow> Inl e
      | Inr question_data \<Rightarrow>
          Inr (gs(chat_id \<mapsto> [''trivia_answer'' \<mapsto> question_a question_data]),
               [Reply (question_reply question_data)]))"

definition trivia ::
  "game_state \<Rightarrow> int \<Rightarrow> string list \<Rightarrow> nat \<Rightarrow> py_error + game_state \<times> call list" where
  "trivia gs chat_id args raw =
     (case gs chat_id of
        None \<Rightarrow> new_question gs chat_id raw
      | Some fields \<Rightarrow>
          (case fields ''trivia_answer'' of
             None \<Rightarrow> new_question gs chat_id raw
           | Some correct_answer \<Rightarrow>
               if args \<noteq> [] then
                 let user_answer = strip (join '' '' args) in
                 Inr (gs(chat_id \<mapsto> fields(''trivia_answer'' := None)),
                      [Reply (if lower user_answer = lower correct_answer
                              then check_mark @ '' Correct! Well done! '' @ party_popper
                              else cross_mark @ '' Wrong! The correct answer was: '' @
                                   correct_answer),
                       Reply ''Type /trivia for another question!''])
               else new_question gs chat_id raw))"

text \<open>
  The stores the bot can be in: \<open>trivia\<close> is the only code that writes \<open>game_state\<close>, so
  a store is reached from the empty one by runs of \<open>trivia\<close>.
\<close>

inductive reachable :: "game_state \<Rightarrow> bool" where
  start: "reachable game_state0"
| step: "reachable gs \<Longrightarrow> trivia gs chat_id args raw = Inr (gs', out) \<Longrightarrow> reachable gs'"

subsection \<open>The rules the games are checked against\<close>

text \<open>
  The beats-relation of rock-paper-scissors as the specification words it: rock beats
  scissors, scissors beats paper, paper beats rock.
\<close>

definition spec_beats :: "string \<Rightarrow> string \<Rightarrow> bool" where
  "spec_beats x y \<longleftrightarrow>
     (x = ''rock'' \<and> y = ''scissors'') \<or>
     (x = ''scissors'' \<and> y = ''paper'') \<or>
     (x = ''paper'' \<and> y = ''rock'')"

text \<open>
  The glyph of the die face with \<open>n\<close> pips, for \<open>n\<close> from 1 to 6, is the code point
  U+2680 + (\<open>n\<close> - 1): in UTF-8 the bytes E2, 9A and 7F + \<open>n\<close>.
\<close>

definition die_face :: "int \<Rightarrow> string" where
  "die_face n = [CHR 0xE2, CHR 0x9A, char_of (0x7F + n)]"

section \<open>The trivia session store\<close>

subsection \<open>Drawing a question\<close>

lemma choice_nonempty: "xs \<noteq> [] \<Longrightarrow> choice xs raw = Inr (xs ! (raw mod length xs))"
  by (simp add: choice_def)

lemma questions_nonempty: "questions \<noteq> []"
  by (simp add: questions_def)

lemma drawn_question_member: "questions ! (raw mod length questions) \<in> set questions"
  using questions_nonempty by simp

lemma new_question_run:
  "new_question gs c raw =
     Inr (gs(c \<mapsto> [''trivia_answer'' \<mapsto> question_a (questions ! (raw mod length questions))]),
          [Reply (question_reply (questions ! (raw mod length questions)))])"
  by (simp add: new_question_def choice_nonempty questions_nonempty)

lemma trivia_no_args: "trivia gs c [] raw = new_question gs c raw"
  by (simp add: trivia_def split: option.splits)

text \<open>
  Claim C3. Two requests for a question in a row (the command without arguments, from
  any store): both succeed, each replies with the question it drew, and the store that
  results is the first store with the entry of the chat replaced by a dictionary of one
  field, the answer of the second question. Nothing of the first session is left. The
  store is a map, so a chat has one entry at most.
\<close>

theorem trivia_request_twice_overwrites:
  "\<exists>q1 q2 gs1.
     q1 \<in> set questions \<and> q2 \<in> set questions \<and>
     trivia gs c [] raw1 = Inr (gs1, [Reply (question_reply q1)]) \<and>
     trivia gs1 c [] raw2 =
       Inr (gs(c \<mapsto> [''trivia_answer'' \<mapsto> question_a q2]), [Reply (question_reply q2)]) \<and>
     q2 = questions ! (raw2 mod length questions)"
proof -
  let ?q1 = "questions ! (raw1 mod length questions)"
  let ?q2 = "questions ! (raw2 mod length questions)"
  let ?gs1 = "gs(c \<mapsto> [''trivia_answer'' \<mapsto> question_a ?q1])"
  have s1: "trivia gs c [] raw1 = Inr (?gs1, [Reply (question_reply ?q1)])"
    by (simp only: trivia_no_args new_question_run)
  have s2: "trivia ?gs1 c [] raw2 =
      Inr (gs(c \<mapsto> [''trivia_answer'' \<mapsto> question_a ?q2]), [Reply (question_reply ?q2)])"
    by (simp add: trivia_no_args new_question_run)
  from drawn_question_member [of raw1] drawn_question_member [of raw2] s1 s2
  show ?thesis by blast
qed

subsection \<open>Facts about the string operations\<close>

text \<open>\<open>contains\<close> is the contiguous-sublist relation of the library.\<close>

lemma contains_sublist: "contains s sub \<longleftrightarrow> sublist sub s"
  by (induction s) (auto simp: sublist_Cons_right)

lemma contains_append_right: "contains (xs @ ys) ys"
  by (simp add: contains_sublist)

subsection \<open>The two paths of \<open>trivia\<close>\<close>

lemma trivia_idle: "\<not> pending gs c \<Longrightarrow> trivia gs c args raw = new_question gs c raw"
  by (auto simp: trivia_def pending_def split: option.splits)

lemma trivia_answer_run:
  assumes "gs c = Some fields" and "fields ''trivia_answer'' = Some correct" and "args \<noteq> []"
  shows "trivia gs c args raw =
     Inr (gs(c \<mapsto> fields(''trivia_answer'' := None)),
          [Reply (if lower (strip (join '' '' args)) = lower correct
                  then check_mark @ '' Correct! Well done! '' @ party_popper
                  else cross_mark @ '' Wrong! The correct answer was: '' @ correct),
           Reply ''Type /trivia for another question!''])"
  using assms by (simp add: trivia_def)

text \<open>An entry of a reachable store has no field but \<open>trivia_answer\<close>.\<close>

lemma reachable_fields:
  "reachable gs \<Longrightarrow> gs c = Some fields \<Longrightarrow> dom fields \<subseteq> {''trivia_answer''}"
proof (induction arbitrary: c fields rule: reachable.induct)
  case start
  then show ?case by (simp add: game_state0_def)
next
  case (step gs chat_id args raw gs' out)
  show ?case
  proof (cases "pending gs chat_id \<and> args \<noteq> []")
    case True
    then obtain f a where f: "gs chat_id = Some f" "f ''trivia_answer'' = Some a"
      by (auto simp: pending_def split: option.splits)
    with True step.hyps(2) have gs': "gs' = gs(chat_id \<mapsto> f(''trivia_answer'' := None))"
      by (simp add: trivia_answer_run)
    show ?thesis
    proof (cases "c = chat_id")
      case True
      with gs' step.prems have "fields = f(''trivia_answer'' := None)" by simp
      moreover have "dom f \<subseteq> {''trivia_answer''}" using step.IH f(1) by blast
      ultimately show ?thesis by (auto simp: subset_iff dom_def split: if_splits)
    next
      case False
      with gs' step.prems have "gs c = Some fields" by simp
      then show ?thesis using step.IH by blast
    qed
  next
    case False
    then have "trivia gs chat_id args raw = new_question gs chat_id raw"
      by (cases "args = []") (simp_all add: trivia_no_args trivia_idle)
    with step.hyps(2) have gs':
      "gs' = gs(chat_id \<mapsto> [''trivia_answer'' \<mapsto> question_a (questions ! (raw mod length questions))])"
      by (simp add: new_question_run)
    show ?thesis
    proof (cases "c = chat_id")
      case True
      with gs' step.prems show ?thesis by (auto split: if_splits)
    next
      case False
      with gs' step.prems have "gs c = Some fields" by simp
      then show ?thesis using step.IH by blast
    qed
  qed
qed

lemma trivia_dom:
  "trivia gs c args raw = Inr (gs', out) \<Longrightarrow> dom gs' = insert c (dom gs)"
  by (auto simp: trivia_def new_question_run split: option.splits if_splits)

lemma trivia_idle_forms:
  "\<not> pending gs c \<Longrightarrow> trivia (gs(c := None)) c args raw = trivia gs c args raw"
  by (simp add: trivia_idle pending_def new_question_run)


lemma trivia_idle_store_forms:
  "trivia (gs(c \<mapsto> Map.empty)) c args raw = trivia (gs(c := None)) c args raw"
  by (simp add: trivia_def new_question_run)




text \<open>
  Claim C2. When the chat has a pending question with stored answer \<open>correct\<close> and the
  command comes with arguments, the handler compares the lower-cased, trimmed, joined
  arguments with the lower-cased stored answer. It replies twice (the verdict, then the
  invitation to another question), and whatever the verdict the chat has no pending
  question afterwards. A wrong answer's verdict ends with the stored answer. The
  comparison takes \<open>PARIS\<close> for \<open>Paris\<close>.
\<close>

theorem trivia_answer_consumes_session:
  assumes "gs c = Some fields" and "fields ''trivia_answer'' = Some correct" and "args \<noteq> []"
  shows "\<exists>gs' verdict.
     trivia gs c args raw =
       Inr (gs', [Reply verdict, Reply ''Type /trivia for another question!'']) \<and>
     \<not> pending gs' c \<and>
     (lower (strip (join '' '' args)) = lower correct \<longrightarrow>
        verdict = check_mark @ '' Correct! Well done! '' @ party_popper) \<and>
     (lower (strip (join '' '' args)) \<noteq> lower correct \<longrightarrow>
        verdict = cross_mark @ '' Wrong! The correct answer was: '' @ correct \<and>
        contains verdict correct) \<and>
     lower (strip (join '' '' [''PARIS''])) = lower ''Paris''"
proof -
  let ?gs' = "gs(c \<mapsto> fields(''trivia_answer'' := None))"
  let ?verdict = "if lower (strip (join '' '' args)) = lower correct
                  then check_mark @ '' Correct! Well done! '' @ party_popper
                  else cross_mark @ '' Wrong! The correct answer was: '' @ correct"
  have run: "trivia gs c args raw =
      Inr (?gs', [Reply ?verdict, Reply ''Type /trivia for another question!''])"
    using assms by (rule trivia_answer_run)
  have idle: "\<not> pending ?gs' c"
    by (simp add: pending_def)
  have shown: "contains (cross_mark @ '' Wrong! The correct answer was: '' @ correct) correct"
    using contains_append_right [of "cross_mark @ '' Wrong! The correct answer was: ''" correct]
    by simp
  have paris: "lower (strip (join '' '' [''PARIS''])) = lower ''Paris''"
    by (simp add: lower_char_def kelvin_sign_def strip_def drop_leading.simps whitespace_def)
  from run idle shown paris show ?thesis
    by (intro exI [of _ ?gs'] exI [of _ ?verdict]) simp
qed

theorem trivia_answer_consumes_session_witness:
  "trivia (game_state0(7 \<mapsto> [''trivia_answer'' \<mapsto> ''Paris''])) 7 [''PARIS''] 0 =
     Inr (game_state0(7 \<mapsto> Map.empty),
          [Reply (check_mark @ '' Correct! Well done! '' @ party_popper),
           Reply ''Type /trivia for another question!'']) \<and>
   trivia (game_state0(7 \<mapsto> [''trivia_answer'' \<mapsto> ''Paris''])) 7 [''Lyon''] 0 =
     Inr (game_state0(7 \<mapsto> Map.empty),
          [Reply (cross_mark @ '' Wrong! The correct answer was: Paris''),
           Reply ''Type /trivia for another question!''])"
proof -
  let ?gs = "game_state0(7 \<mapsto> [''trivia_answer'' \<mapsto> ''Paris''])"
  have h1: "?gs 7 = Some [''trivia_answer'' \<mapsto> ''Paris'']" by simp
  have h2: "[''trivia_answer'' \<mapsto> ''Paris''] ''trivia_answer'' = Some ''Paris''" by simp
  have a1: "[''PARIS''] \<noteq> []" and a2: "[''Lyon''] \<noteq> []" by simp_all
  from trivia_answer_consumes_session
         [where gs = ?gs and c = 7 and fields = "[''trivia_answer'' \<mapsto> ''Paris'']"
            and raw = 0, OF h1 h2 a1]
       trivia_answer_consumes_session
         [where gs = ?gs and c = 7 and fields = "[''trivia_answer'' \<mapsto> ''Paris'']"
            and raw = 0, OF h1 h2 a2]
  show ?thesis
    by (simp add: trivia_def lower_char_def kelvin_sign_def strip_def drop_leading.simps whitespace_def)
qed

text \<open>
  Claim C9. In a reachable store, answering the pending question of chat \<open>c\<close> deletes
  the field \<open>trivia_answer\<close> of the chat's entry and nothing else: the entry stays in the
  store, as the empty dictionary, and the chat has no pending question. No run of
  \<open>trivia\<close> removes a key of the store. A chat whose entry is the empty dictionary and a
  chat with no entry are treated alike by the next \<open>trivia\<close>, as is any chat without
  the field.
\<close>

theorem trivia_consumed_entry_stays:
  assumes "reachable gs" and "pending gs c" and "args \<noteq> []"
  shows "\<exists>fields out.
     gs c = Some fields \<and>
     trivia gs c args raw = Inr (gs(c \<mapsto> fields(''trivia_answer'' := None)), out) \<and>
     fields(''trivia_answer'' := None) = Map.empty \<and>
     c \<in> dom (gs(c \<mapsto> fields(''trivia_answer'' := None))) \<and>
     \<not> pending (gs(c \<mapsto> fields(''trivia_answer'' := None))) c \<and>
     (\<forall>g k a r g' out'. trivia g k a r = Inr (g', out') \<longrightarrow> dom g \<subseteq> dom g') \<and>
     (\<forall>g a r. trivia (g(c \<mapsto> Map.empty)) c a r = trivia (g(c := None)) c a r) \<and>
     (\<forall>g a r. \<not> pending g c \<longrightarrow> trivia g c a r = trivia (g(c := None)) c a r)"
proof -
  from assms(2) obtain fields correct
    where f: "gs c = Some fields" "fields ''trivia_answer'' = Some correct"
    by (auto simp: pending_def split: option.splits)
  from trivia_answer_run [where gs = gs and c = c and raw = raw, OF f assms(3)] obtain out
    where run: "trivia gs c args raw = Inr (gs(c \<mapsto> fields(''trivia_answer'' := None)), out)"
    by blast
  have "dom fields \<subseteq> {''trivia_answer''}"
    using assms(1) f(1) by (rule reachable_fields)
  then have emp: "fields(''trivia_answer'' := None) = Map.empty"
    by (auto simp: fun_eq_iff dom_def)
  have idle: "\<not> pending (gs(c \<mapsto> fields(''trivia_answer'' := None))) c"
    by (simp add: pending_def)
  have keys: "\<forall>g k a r g' out'. trivia g k a r = Inr (g', out') \<longrightarrow> dom g \<subseteq> dom g'"
    using trivia_dom by blast
  have forms: "\<forall>g a r. trivia (g(c \<mapsto> Map.empty)) c a r = trivia (g(c := None)) c a r"
    by (simp add: trivia_idle_store_forms)
  have forms': "\<forall>g a r. \<not> pending g c \<longrightarrow> trivia g c a r = trivia (g(c := None)) c a r"
    by (simp add: trivia_idle_forms)
  from f(1) run emp idle keys forms forms' show ?thesis
    by (intro exI [of _ fields] exI [of _ out]) simp
qed

theorem trivia_consumed_entry_stays_witness:
  "reachable (game_state0(7 \<mapsto> [''trivia_answer'' \<mapsto> ''Paris''])) \<and>
   pending (game_state0(7 \<mapsto> [''trivia_answer'' \<mapsto> ''Paris''])) 7 \<and>
   trivia (game_state0(7 \<mapsto> [''trivia_answer'' \<mapsto> ''Paris''])) 7 [''Paris''] 0 =
     Inr (game_state0(7 \<mapsto> Map.empty),
          [Reply (check_mark @ '' Correct! Well done! '' @ party_popper),
           Reply ''Type /trivia for another question!'']) \<and>
   trivia (game_state0(7 \<mapsto> Map.empty)) 7 [''Paris''] 1 = trivia game_state0 7 [''Paris''] 1"
proof -
  let ?gs = "game_state0(7 \<mapsto> [''trivia_answer'' \<mapsto> ''Paris''])"
  have "trivia game_state0 7 [] 0 = Inr (?gs, [Reply (question_reply (questions ! 0))])"
    by (simp add: trivia_no_args new_question_run questions_def)
  with reachable.start have r: "reachable ?gs" by (rule reachable.step)
  have p: "pending ?gs 7" by (simp add: pending_def)
  have a: "[''Paris''] \<noteq> []" by simp
  from r p trivia_consumed_entry_stays [OF r p a, of 0] show ?thesis
    by (simp add: trivia_def lower_char_def kelvin_sign_def strip_def drop_leading.simps whitespace_def game_state0_def new_question_run)
qed

section \<open>Free text in a group and the command /ask\<close>

subsection \<open>What \<open>replace\<close> and \<open>strip\<close> compute\<close>

text \<open>
  A text without the needle is left as it is; a text whose first occurrence of the needle
  stands after \<open>pre\<close> loses that occurrence, and the rest is searched on; a stripped text
  neither starts nor ends with a white-space character.
\<close>

lemma replace_absent:
  assumes "old \<noteq> []" and "\<not> contains s old"
  shows "replace s old new = s"
  using assms(2)
proof (induction s)
  case Nil
  show ?case using assms(1) by (simp add: replace.simps)
next
  case (Cons c cs)
  then have "\<not> prefix old (c # cs)" and "replace cs old new = cs" by simp_all
  then show ?case using assms(1) by (simp add: replace.simps [of "c # cs"])
qed

lemma prefix_short:
  assumes "prefix xs (ys @ zs)" and "length xs \<le> length ys"
  shows "prefix xs ys"
  using assms by (auto simp: prefix_append)

lemma replace_first:
  assumes "old \<noteq> []" and "\<not> contains (pre @ butlast old) old"
  shows "replace (pre @ old @ post) old new = pre @ new @ replace post old new"
  using assms(2)
proof (induction pre)
  case Nil
  show ?case using assms(1) by (simp add: replace.simps [of "old @ post"])
next
  case (Cons c pre)
  then have np: "\<not> prefix old (c # pre @ butlast old)"
    and ih: "replace (pre @ old @ post) old new = pre @ new @ replace post old new"
    by simp_all
  have split: "c # pre @ old @ post = (c # pre @ butlast old) @ (last old # post)"
    using assms(1) by (simp add: snoc_eq_iff_butlast [symmetric] flip: append_butlast_last_id)
  have "\<not> prefix old (c # pre @ old @ post)"
  proof
    assume "prefix old (c # pre @ old @ post)"
    then have "prefix old ((c # pre @ butlast old) @ (last old # post))"
      by (simp only: split)
    moreover have "length old \<le> length (c # pre @ butlast old)"
      using assms(1) by simp
    ultimately have "prefix old (c # pre @ butlast old)" by (rule prefix_short)
    with np show False by contradiction
  qed
  then show ?case using assms(1) ih
    by (simp add: replace.simps [of "c # pre @ old @ post"])
qed

lemma drop_leading_done:
  "find (\<lambda>w. w \<noteq> [] \<and> prefix w (drop_leading ws s)) ws = None"
proof (induction ws s rule: drop_leading.induct)
  case (1 ws s)
  show ?case
  proof (cases "find (\<lambda>w. w \<noteq> [] \<and> prefix w s) ws")
    case None
    then have "drop_leading ws s = s" by (simp add: drop_leading.simps [of ws s])
    with None show ?thesis by simp
  next
    case (Some w)
    then have "drop_leading ws s = drop_leading ws (drop (length w) s)"
      by (simp add: drop_leading.simps [of ws s])
    with "1.IH" [OF Some] show ?thesis by simp
  qed
qed

lemma drop_leading_suffix: "suffix (drop_leading ws s) s"
proof (induction ws s rule: drop_leading.induct)
  case (1 ws s)
  show ?case
  proof (cases "find (\<lambda>w. w \<noteq> [] \<and> prefix w s) ws")
    case None
    then show ?thesis by (simp add: drop_leading.simps [of ws s])
  next
    case (Some w)
    then have "drop_leading ws s = drop_leading ws (drop (length w) s)"
      by (simp add: drop_leading.simps [of ws s])
    moreover have "suffix (drop (length w) s) s" by (rule suffix_drop)
    ultimately show ?thesis using "1.IH" [OF Some] by (auto intro: suffix_order.trans)
  qed
qed

lemma whitespace_nonempty: "w \<in> set whitespace \<Longrightarrow> w \<noteq> []"
  by (auto simp: whitespace_def)

lemma strip_ends:
  assumes "w \<in> set whitespace"
  shows "\<not> prefix w (strip s) \<and> \<not> suffix w (strip s)"
proof -
  let ?l = "drop_leading whitespace s"
  let ?r = "drop_leading (map rev whitespace) (rev ?l)"
  have ne: "w \<noteq> []" using assms by (rule whitespace_nonempty)
  have s: "strip s = rev ?r" by (simp add: strip_def)
  have left: "\<not> prefix w ?l"
    using drop_leading_done [of whitespace s] assms ne by (auto simp: find_None_iff)
  have "rev w \<in> set (map rev whitespace)" using assms by simp
  then have right: "\<not> prefix (rev w) ?r"
    using drop_leading_done [of "map rev whitespace" "rev ?l"] ne
    by (auto simp: find_None_iff)
  have "suffix ?r (rev ?l)" by (rule drop_leading_suffix)
  then have "prefix (rev ?r) ?l" by (simp add: suffix_to_prefix)
  then have "\<not> prefix w (rev ?r)" using left by (auto dest: prefix_order.trans)
  moreover have "\<not> suffix w (rev ?r)" using right by (simp add: suffix_to_prefix)
  ultimately show ?thesis by (simp add: s)
qed


subsection \<open>The claims\<close>

text \<open>
  Claim C4. A group message whose text does not contain the bot's handle (\<open>@\<close> and the
  user name) and that is not a reply to a message of the bot is dropped: the handler
  returns without raising and makes no call at all, so neither a reply nor a request to
  the generator, whatever the generator is.
\<close>

theorem handle_group_message_drops:
  assumes "\<not> contains t (''@'' @ bot_username)" and "reply_to_sender \<noteq> Some bot_id"
  shows "handle_group_message model bot_username bot_id (Some t) reply_to_sender = Inr []"
  using assms by (auto simp: handle_group_message_def Let_def split: option.splits)

theorem handle_group_message_drops_witness:
  "\<not> contains ''hello'' (''@'' @ ''bot'') \<and> Some 9 \<noteq> Some (5::int) \<and>
   handle_group_message (\<lambda>p. Inr (''Hi, '' @ p)) ''bot'' 5 (Some ''hello'') None = Inr [] \<and>
   handle_group_message (\<lambda>p. Inr (''Hi, '' @ p)) ''bot'' 5 (Some ''hello'') (Some 9) = Inr []"
proof -
  have a: "\<not> contains ''hello'' (''@'' @ ''bot'')" by simp
  have b: "None \<noteq> Some (5::int)" and c: "Some 9 \<noteq> Some (5::int)" by simp_all
  from a c handle_group_message_drops [OF a b, of "\<lambda>p. Inr (''Hi, '' @ p)"]
       handle_group_message_drops [OF a c, of "\<lambda>p. Inr (''Hi, '' @ p)"]
  show ?thesis by simp
qed

text \<open>A message with text that mentions the bot or replies to it reaches the generation path.\<close>

lemma handle_group_message_routed:
  assumes "contains t (''@'' @ bot_username) \<or> reply_to_sender = Some bot_id"
  shows "handle_group_message model bot_username bot_id (Some t) reply_to_sender =
     (let text = strip (replace t (''@'' @ bot_username) []) in
      if text = [] then Inr [Reply ''Yes? How can I help you?'']
      else
        (case model text of
           Inr response_text \<Rightarrow> Inr [Generate text, Reply response_text]
         | Inl e \<Rightarrow>
             Inr [Generate text,
                  LogError (''Gemini API error: '' @ e),
                  Reply (cross_mark @ '' Sorry, I encountered an error: '' @ e)]))"
proof -
  have "t \<noteq> [] \<or> reply_to_sender = Some bot_id"
    using assms by (cases t) auto
  with assms show ?thesis
    by (auto simp: handle_group_message_def Let_def split: option.splits)
qed

text \<open>
  Claim C5. For a group message that mentions the bot or replies to it, the prompt is
  the text with every occurrence of the handle replaced by nothing (from the left,
  wherever it stands) and the white space around the result trimmed, so that the prompt
  neither starts nor ends with one of Python's white-space characters. An empty prompt
  gives the canned reply and no request to the generator. Otherwise there is exactly one
  request, with the prompt, followed by the reply with the generator's text as it is,
  or, when the generator fails, by a line in the log and a reply with the formatted
  error.
\<close>

theorem handle_group_message_generates:
  assumes "contains t (''@'' @ bot_username) \<or> reply_to_sender = Some bot_id"
  shows "\<exists>prompt.
     prompt = strip (replace t (''@'' @ bot_username) []) \<and>
     (prompt = [] \<longrightarrow>
        handle_group_message model bot_username bot_id (Some t) reply_to_sender =
          Inr [Reply ''Yes? How can I help you?'']) \<and>
     (\<forall>w\<in>set whitespace. \<not> prefix w prompt \<and> \<not> suffix w prompt) \<and>
     (prompt \<noteq> [] \<longrightarrow>
        (\<forall>r. model prompt = Inr r \<longrightarrow>
           handle_group_message model bot_username bot_id (Some t) reply_to_sender =
             Inr [Generate prompt, Reply r]) \<and>
        (\<forall>e. model prompt = Inl e \<longrightarrow>
           handle_group_message model bot_username bot_id (Some t) reply_to_sender =
             Inr [Generate prompt,
                  LogError (''Gemini API error: '' @ e),
                  Reply (cross_mark @ '' Sorry, I encountered an error: '' @ e)])) \<and>
     (\<not> contains t (''@'' @ bot_username) \<longrightarrow> replace t (''@'' @ bot_username) [] = t) \<and>
     (\<forall>pre post.
        t = pre @ (''@'' @ bot_username) @ post \<and>
        \<not> contains (pre @ butlast (''@'' @ bot_username)) (''@'' @ bot_username) \<longrightarrow>
        replace t (''@'' @ bot_username) [] = pre @ replace post (''@'' @ bot_username) [])"
proof -
  let ?handle = "''@'' @ bot_username"
  let ?prompt = "strip (replace t ?handle [])"
  have ne: "?handle \<noteq> []" by simp
  note run = handle_group_message_routed [OF assms, of model]
  have canned: "?prompt = [] \<longrightarrow>
      handle_group_message model bot_username bot_id (Some t) reply_to_sender =
        Inr [Reply ''Yes? How can I help you?'']"
    using run by (simp add: Let_def)
  have outer: "\<forall>w\<in>set whitespace. \<not> prefix w ?prompt \<and> \<not> suffix w ?prompt"
    using strip_ends [of _ "replace t ?handle []"] by blast
  have ok: "?prompt \<noteq> [] \<longrightarrow> (\<forall>r. model ?prompt = Inr r \<longrightarrow>
      handle_group_message model bot_username bot_id (Some t) reply_to_sender =
        Inr [Generate ?prompt, Reply r])"
    using run by (simp add: Let_def)
  have failed: "?prompt \<noteq> [] \<longrightarrow> (\<forall>e. model ?prompt = Inl e \<longrightarrow>
      handle_group_message model bot_username bot_id (Some t) reply_to_sender =
        Inr [Generate ?prompt,
             LogError (''Gemini API error: '' @ e),
             Reply (cross_mark @ '' Sorry, I encountered an error: '' @ e)])"
    using run by (simp add: Let_def)
  have absent: "\<not> contains t ?handle \<longrightarrow> replace t ?handle [] = t"
    using replace_absent [OF ne] by blast
  have first: "\<forall>pre post.
      t = pre @ ?handle @ post \<and> \<not> contains (pre @ butlast ?handle) ?handle \<longrightarrow>
      replace t ?handle [] = pre @ replace post ?handle []"
    using replace_first [OF ne, where new = "[]"] by auto
  from canned outer ok failed absent first show ?thesis by blast
qed

theorem handle_group_message_generates_witness:
  "contains ''@bot hello'' (''@'' @ ''bot'') \<and>
   handle_group_message (\<lambda>p. Inr (''Hi, '' @ p)) ''bot'' 5 (Some ''@bot hello'') None =
     Inr [Generate ''hello'', Reply ''Hi, hello''] \<and>
   handle_group_message (\<lambda>p. Inl ''quota'') ''bot'' 5 (Some ''say @bot hi'') None =
     Inr [Generate ''say  hi'', LogError ''Gemini API error: quota'',
          Reply (cross_mark @ '' Sorry, I encountered an error: quota'')] \<and>
   handle_group_message (\<lambda>p. Inr (''Hi, '' @ p)) ''bot'' 5 (Some '' @bot '') None =
     Inr [Reply ''Yes? How can I help you?''] \<and>
   handle_group_message (\<lambda>p. Inr (''Hi, '' @ p)) ''bot'' 5
     (Some [CHR ''@'', CHR ''b'', CHR ''o'', CHR ''t'', CHR 0xC2, CHR 0xA0,
           CHR ''@'', CHR ''b'', CHR ''o'', CHR ''t'']) None =
     Inr [Reply ''Yes? How can I help you?'']"
proof -
  let ?nbsp = "[CHR ''@'', CHR ''b'', CHR ''o'', CHR ''t'', CHR 0xC2, CHR 0xA0,
               CHR ''@'', CHR ''b'', CHR ''o'', CHR ''t'']"
  have m1: "contains ''@bot hello'' (''@'' @ ''bot'') \<or> None = Some (5::int)" by simp
  have m2: "contains ''say @bot hi'' (''@'' @ ''bot'') \<or> None = Some (5::int)" by simp
  have m3: "contains '' @bot '' (''@'' @ ''bot'') \<or> None = Some (5::int)" by simp
  have m4: "contains ?nbsp (''@'' @ ''bot'') \<or> None = Some (5::int)" by simp
  have p1: "strip (replace ''@bot hello'' ''@bot'' []) = ''hello''"
    by (simp add: replace.simps strip_def drop_leading.simps whitespace_def)
  have p2: "strip (replace ''say @bot hi'' ''@bot'' []) = ''say  hi''"
    by (simp add: replace.simps strip_def drop_leading.simps whitespace_def)
  have p3: "strip (replace '' @bot '' ''@bot'' []) = []"
    by (simp add: replace.simps strip_def drop_leading.simps whitespace_def)
  have p4: "strip (replace ?nbsp ''@bot'' []) = []"
    by (simp add: replace.simps strip_def drop_leading.simps whitespace_def)
  from handle_group_message_generates [OF m1, of "\<lambda>p. Inr (''Hi, '' @ p)"]
       handle_group_message_generates [OF m2, of "\<lambda>p. Inl ''quota''"]
       handle_group_message_generates [OF m3, of "\<lambda>p. Inr (''Hi, '' @ p)"]
       handle_group_message_generates [OF m4, of "\<lambda>p. Inr (''Hi, '' @ p)"]
  show ?thesis
    by (simp add: p1 p2 p3 p4)
qed

text \<open>
  Claim C6. Without arguments /ask sends the usage hint and nothing else. With arguments
  it first sends the placeholder, then makes one request to the generator with the
  arguments joined by spaces, then relays the response; when the generator fails, what
  follows the request is a line in the log and one reply that ends with the description
  of the error. The handler returns a list of calls in every case: the exception is
  caught where it is raised, and the generator is asked once.
\<close>

theorem ask_gemini_calls:
  "(args = [] \<longrightarrow>
      ask_gemini model args =
        [Reply ''Please provide a question! Example: /ask What is Python?'']) \<and>
   (args \<noteq> [] \<longrightarrow>
      (\<forall>r. model (join '' '' args) = Inr r \<longrightarrow>
         ask_gemini model args =
           [Reply (thinking_face @ '' Thinking...''), Generate (join '' '' args), Reply r]) \<and>
      (\<forall>e. model (join '' '' args) = Inl e \<longrightarrow>
         ask_gemini model args =
           [Reply (thinking_face @ '' Thinking...''), Generate (join '' '' args),
            LogError (''Gemini API error: '' @ e), Reply (cross_mark @ '' Error: '' @ e)] \<and>
         contains (cross_mark @ '' Error: '' @ e) e) \<and>
      length (filter is_generate (ask_gemini model args)) = 1)"
proof -
  let ?q = "join '' '' args"
  let ?thinking = "Reply (thinking_face @ '' Thinking...'')"
  have usage: "args = [] \<longrightarrow>
      ask_gemini model args =
        [Reply ''Please provide a question! Example: /ask What is Python?'']"
    by (simp add: ask_gemini_def)
  have ok: "args \<noteq> [] \<longrightarrow> (\<forall>r. model ?q = Inr r \<longrightarrow>
      ask_gemini model args = [?thinking, Generate ?q, Reply r])"
    by (simp add: ask_gemini_def Let_def)
  have failed: "args \<noteq> [] \<longrightarrow> (\<forall>e. model ?q = Inl e \<longrightarrow>
      ask_gemini model args =
        [?thinking, Generate ?q, LogError (''Gemini API error: '' @ e),
         Reply (cross_mark @ '' Error: '' @ e)])"
    by (simp add: ask_gemini_def Let_def)
  have err: "contains (cross_mark @ '' Error: '' @ e) e" for e
    using contains_append_right [of "cross_mark @ '' Error: ''" e] by simp
  have once: "args \<noteq> [] \<longrightarrow> length (filter is_generate (ask_gemini model args)) = 1"
    by (cases "model ?q") (simp_all add: ask_gemini_def Let_def)
  from usage ok failed err once show ?thesis by blast
qed

theorem ask_gemini_calls_witness:
  "ask_gemini (\<lambda>p. Inl ''quota'') [] =
     [Reply ''Please provide a question! Example: /ask What is Python?''] \<and>
   ask_gemini (\<lambda>p. Inr (''Hi, '' @ p)) [''What'', ''is'', ''Python?''] =
     [Reply (thinking_face @ '' Thinking...''), Generate ''What is Python?'',
      Reply ''Hi, What is Python?''] \<and>
   ask_gemini (\<lambda>p. Inl ''quota'') [''What'', ''is'', ''Python?''] =
     [Reply (thinking_face @ '' Thinking...''), Generate ''What is Python?'',
      LogError ''Gemini API error: quota'', Reply (cross_mark @ '' Error: quota'')]"
  using ask_gemini_calls [of "[]" "\<lambda>p. Inl ''quota''"]
        ask_gemini_calls [of "[''What'', ''is'', ''Python?'']" "\<lambda>p. Inr (''Hi, '' @ p)"]
        ask_gemini_calls [of "[''What'', ''is'', ''Python?'']" "\<lambda>p. Inl ''quota''"]
  by simp

section \<open>The mini-games\<close>

subsection \<open>Dice and coin\<close>

lemma draw_below_six:
  fixes raw :: nat
  obtains "raw mod 6 = 0" | "raw mod 6 = 1" | "raw mod 6 = 2"
        | "raw mod 6 = 3" | "raw mod 6 = 4" | "raw mod 6 = 5"
proof -
  have "raw mod 6 < 6" by simp
  then show ?thesis using that by linarith
qed

lemma die_faces_match: "map die_face [1, 2, 3, 4, 5, 6] = dice_faces"
  by (simp add: die_face_def dice_faces_def char_of_def)

lemma shown_numbers:
  "map str_int [1, 2, 3, 4, 5, 6] = [''1'', ''2'', ''3'', ''4'', ''5'', ''6'']"
  by (simp add: str_int_def str_nat.simps)

lemma roll_dice_draw:
  "\<exists>n\<in>{1..6}. roll_dice raw =
     Inr [Reply (game_die @ '' You rolled: '' @ die_face n @ '' ('' @ str_int n @ '')'')]"
proof (cases raw rule: draw_below_six)
  case 1
  then show ?thesis
    by (intro bexI [of _ 1])
       (simp_all add: roll_dice_def randint_def py_index_def dice_faces_def die_face_def char_of_def)
next
  case 2
  then show ?thesis
    by (intro bexI [of _ 2])
       (simp_all add: roll_dice_def randint_def py_index_def dice_faces_def die_face_def char_of_def)
next
  case 3
  then show ?thesis
    by (intro bexI [of _ 3])
       (simp_all add: roll_dice_def randint_def py_index_def dice_faces_def die_face_def char_of_def)
next
  case 4
  then show ?thesis
    by (intro bexI [of _ 4])
       (simp_all add: roll_dice_def randint_def py_index_def dice_faces_def die_face_def char_of_def)
next
  case 5
  then show ?thesis
    by (intro bexI [of _ 5])
       (simp_all add: roll_dice_def randint_def py_index_def dice_faces_def die_face_def char_of_def)
next
  case 6
  then show ?thesis
    by (intro bexI [of _ 6])
       (simp_all add: roll_dice_def randint_def py_index_def dice_faces_def die_face_def char_of_def)
qed

lemma flip_coin_draw:
  "\<exists>side\<in>{''Heads'', ''Tails''}. flip_coin raw =
     Inr [Reply ((if side = ''Heads'' then coin else radio_button) @
                 '' The coin landed on: **'' @ side @ ''**!'')]"
proof (cases "raw mod 2 = 0")
  case True
  then have "choice [''Heads'', ''Tails''] raw = Inr ''Heads''"
    by (simp add: choice_def numeral_2_eq_2)
  then show ?thesis by (simp add: flip_coin_def)
next
  case False
  then have "raw mod 2 = 1" by simp
  then have "choice [''Heads'', ''Tails''] raw = Inr ''Tails''"
    by (simp add: choice_def numeral_2_eq_2)
  then show ?thesis by (simp add: flip_coin_def)
qed

text \<open>
  Claim C8. Whatever the draw, \<open>roll_dice\<close> succeeds and replies with a number \<open>n\<close>
  from 1 to 6, shown as its digit, beside the glyph of the die face with \<open>n\<close> pips (the
  six glyphs of the handler are those faces, in order); and \<open>flip_coin\<close> succeeds and
  replies with \<open>Heads\<close> or \<open>Tails\<close>, beside the glyph of that side.
\<close>

theorem roll_dice_flip_coin_range:
  "(\<exists>n\<in>{1..6}. roll_dice raw =
      Inr [Reply (game_die @ '' You rolled: '' @ die_face n @ '' ('' @ str_int n @ '')'')]) \<and>
   map str_int [1, 2, 3, 4, 5, 6] = [''1'', ''2'', ''3'', ''4'', ''5'', ''6''] \<and>
   map die_face [1, 2, 3, 4, 5, 6] = dice_faces \<and>
   (\<exists>side\<in>{''Heads'', ''Tails''}. flip_coin raw' =
      Inr [Reply ((if side = ''Heads'' then coin else radio_button) @
                  '' The coin landed on: **'' @ side @ ''**!'')])"
proof (intro conjI)
  show "\<exists>n\<in>{1..6}. roll_dice raw =
      Inr [Reply (game_die @ '' You rolled: '' @ die_face n @ '' ('' @ str_int n @ '')'')]"
    by (rule roll_dice_draw)
  show "map str_int [1, 2, 3, 4, 5, 6] = [''1'', ''2'', ''3'', ''4'', ''5'', ''6'']"
    by (rule shown_numbers)
  show "map die_face [1, 2, 3, 4, 5, 6] = dice_faces"
    by (rule die_faces_match)
  show "\<exists>side\<in>{''Heads'', ''Tails''}. flip_coin raw' =
      Inr [Reply ((if side = ''Heads'' then coin else radio_button) @
                  '' The coin landed on: **'' @ side @ ''**!'')]"
    by (rule flip_coin_draw)
qed

subsection \<open>The magic 8-ball\<close>

lemma choice_member: "xs \<noteq> [] \<Longrightarrow> \<exists>x\<in>set xs. choice xs raw = Inr x"
  by (simp add: choice_def)

lemma responses_length: "length responses = 18"
  by (simp add: responses_def)

text \<open>
  Claim C10. With the same draw, two non-empty argument lists get the same reply from
  the magic 8-ball: a phrase of the catalogue of 18, chosen by the draw alone. The
  arguments are only tested for being empty.
\<close>

theorem magic_8ball_ignores_question:
  assumes "args \<noteq> []" and "args' \<noteq> []"
  shows "magic_8ball args raw = magic_8ball args' raw \<and>
         (\<exists>phrase\<in>set responses.
            magic_8ball args raw =
              Inr [Reply (crystal_ball @ '' The magic 8-ball says: **'' @ phrase @ ''**'')]) \<and>
         length responses = 18"
proof -
  have same: "magic_8ball args raw = magic_8ball args' raw"
    using assms by (simp add: magic_8ball_def)
  have "responses \<noteq> []" using responses_length by auto
  then obtain phrase where "phrase \<in> set responses" "choice responses raw = Inr phrase"
    using choice_member by blast
  then have "\<exists>phrase\<in>set responses.
      magic_8ball args raw =
        Inr [Reply (crystal_ball @ '' The magic 8-ball says: **'' @ phrase @ ''**'')]"
    using assms(1) by (auto simp: magic_8ball_def)
  with same responses_length show ?thesis by blast
qed

theorem magic_8ball_ignores_question_witness:
  "magic_8ball [''Will'', ''I'', ''win?''] 13 = magic_8ball [''Rain?''] 13 \<and>
   magic_8ball [''Will'', ''I'', ''win?''] 13 =
     Inr [Reply (crystal_ball @ '' The magic 8-ball says: **Don't count on it.**'')]"
proof -
  have a: "[''Will'', ''I'', ''win?''] \<noteq> []" and b: "[''Rain?''] \<noteq> []" by simp_all
  from magic_8ball_ignores_question [OF a b, of 13] show ?thesis
    by (simp add: magic_8ball_def choice_def responses_def)
qed

subsection \<open>Rock, paper, scissors\<close>

lemma choices_draw:
  "choice choices raw = Inr (choices ! (raw mod 3)) \<and> choices ! (raw mod 3) \<in> set choices"
proof -
  have len: "length choices = 3" by (simp add: choices_def)
  then have "choices \<noteq> []" by auto
  moreover have "raw mod 3 < length choices" using len by simp
  ultimately show ?thesis using len by (simp add: choice_def)
qed

lemma every_choice_drawn: "\<forall>bot_choice\<in>set choices. \<exists>raw. choice choices raw = Inr bot_choice"
proof -
  have "choice choices 0 = Inr ''rock''" "choice choices 1 = Inr ''paper''"
       "choice choices 2 = Inr ''scissors''"
    by (simp_all add: choice_def choices_def)
  then show ?thesis unfolding choices_def by (metis insert_iff list.simps(15) empty_iff empty_set)
qed

lemma emoji_map_choices:
  "x \<in> set choices \<Longrightarrow> \<exists>e. py_lookup emoji_map x = Inr e \<and> map_of emoji_map x = Some e"
  by (auto simp: choices_def emoji_map_def py_lookup_def)

lemma rps_result_rules:
  assumes "user_choice \<in> set choices" and "bot_choice \<in> set choices"
  shows "(user_choice = bot_choice \<longrightarrow> rps_result user_choice bot_choice = ''It's a tie! '' @ handshake) \<and>
         (spec_beats user_choice bot_choice \<longrightarrow> rps_result user_choice bot_choice = ''You win! '' @ party_popper) \<and>
         (spec_beats bot_choice user_choice \<longrightarrow> rps_result user_choice bot_choice = ''I win! '' @ robot_face) \<and>
         (user_choice = bot_choice \<or> spec_beats user_choice bot_choice \<or> spec_beats bot_choice user_choice)"
  using assms by (auto simp: choices_def rps_result_def spec_beats_def)

lemma rps_play:
  assumes "args \<noteq> []" and "lower (hd args) \<in> set choices"
  shows "\<exists>user_emoji bot_emoji.
     map_of emoji_map (lower (hd args)) = Some user_emoji \<and>
     map_of emoji_map (choices ! (raw mod 3)) = Some bot_emoji \<and>
     rock_paper_scissors args raw =
       Inr [Reply (''You chose: '' @ user_emoji @ '' '' @ lower (hd args) @ nl @
                   ''I chose: '' @ bot_emoji @ '' '' @ choices ! (raw mod 3) @ nl @ nl @
                   rps_result (lower (hd args)) (choices ! (raw mod 3)))]"
proof -
  from emoji_map_choices [OF assms(2)] obtain ue
    where ue: "py_lookup emoji_map (lower (hd args)) = Inr ue"
              "map_of emoji_map (lower (hd args)) = Some ue" by blast
  from choices_draw [of raw] have d: "choice choices raw = Inr (choices ! (raw mod 3))"
    and m: "choices ! (raw mod 3) \<in> set choices" by simp_all
  from emoji_map_choices [OF m] obtain be
    where be: "py_lookup emoji_map (choices ! (raw mod 3)) = Inr be"
              "map_of emoji_map (choices ! (raw mod 3)) = Some be" by blast
  have "rock_paper_scissors args raw =
       Inr [Reply (''You chose: '' @ ue @ '' '' @ lower (hd args) @ nl @
                   ''I chose: '' @ be @ '' '' @ choices ! (raw mod 3) @ nl @ nl @
                   rps_result (lower (hd args)) (choices ! (raw mod 3)))]"
    using assms by (simp add: rock_paper_scissors_def Let_def d ue(1) be(1))
  with ue(2) be(2) show ?thesis by blast
qed

text \<open>
  Claim C7. Without a choice, or with a first argument whose lower-case form is not one
  of rock, paper, scissors, the reply is the usage hint (a capital or the Kelvin sign for
  a letter still gives that letter). Otherwise the handler succeeds,
  the bot's choice is one of the three, the reply shows both choices with their glyphs,
  and the verdict follows the beats-relation: a tie for equal choices, "You win" when the
  user's choice beats the bot's, "I win" when the bot's beats the user's; one of the
  three always applies. Each of the three choices of the bot comes from some draw.
\<close>

theorem rock_paper_scissors_rules:
  "(args = [] \<or> lower (hd args) \<notin> set choices \<longrightarrow>
      rock_paper_scissors args raw = Inr [Reply rps_usage]) \<and>
   (args \<noteq> [] \<and> lower (hd args) \<in> set choices \<longrightarrow>
      (\<exists>user_choice bot_choice user_emoji bot_emoji verdict.
         user_choice = lower (hd args) \<and> bot_choice = choices ! (raw mod 3) \<and> bot_choice \<in> set choices \<and>
         map_of emoji_map user_choice = Some user_emoji \<and> map_of emoji_map bot_choice = Some bot_emoji \<and>
         rock_paper_scissors args raw =
           Inr [Reply (''You chose: '' @ user_emoji @ '' '' @ user_choice @ nl @
                       ''I chose: '' @ bot_emoji @ '' '' @ bot_choice @ nl @ nl @ verdict)] \<and>
         (user_choice = bot_choice \<longrightarrow> verdict = ''It's a tie! '' @ handshake) \<and>
         (spec_beats user_choice bot_choice \<longrightarrow> verdict = ''You win! '' @ party_popper) \<and>
         (spec_beats bot_choice user_choice \<longrightarrow> verdict = ''I win! '' @ robot_face) \<and>
         (user_choice = bot_choice \<or> spec_beats user_choice bot_choice \<or> spec_beats bot_choice user_choice))) \<and>
   (\<forall>bot_choice\<in>set choices. \<exists>raw'. choice choices raw' = Inr bot_choice)"
proof (intro conjI impI)
  assume "args = [] \<or> lower (hd args) \<notin> set choices"
  then show "rock_paper_scissors args raw = Inr [Reply rps_usage]"
    by (auto simp: rock_paper_scissors_def)
next
  assume valid: "args \<noteq> [] \<and> lower (hd args) \<in> set choices"
  let ?user = "lower (hd args)" and ?bot = "choices ! (raw mod 3)"
  have m: "?bot \<in> set choices" using choices_draw [of raw] by simp
  from valid rps_play [of args raw] obtain ue be
    where play: "map_of emoji_map ?user = Some ue" "map_of emoji_map ?bot = Some be"
      "rock_paper_scissors args raw =
         Inr [Reply (''You chose: '' @ ue @ '' '' @ ?user @ nl @
                     ''I chose: '' @ be @ '' '' @ ?bot @ nl @ nl @ rps_result ?user ?bot)]"
    by blast
  from valid m have rules:
    "(?user = ?bot \<longrightarrow> rps_result ?user ?bot = ''It's a tie! '' @ handshake) \<and>
     (spec_beats ?user ?bot \<longrightarrow> rps_result ?user ?bot = ''You win! '' @ party_popper) \<and>
     (spec_beats ?bot ?user \<longrightarrow> rps_result ?user ?bot = ''I win! '' @ robot_face) \<and>
     (?user = ?bot \<or> spec_beats ?user ?bot \<or> spec_beats ?bot ?user)"
    by (intro rps_result_rules) simp_all
  from m play rules
  show "\<exists>user_choice bot_choice user_emoji bot_emoji verdict.
         user_choice = lower (hd args) \<and> bot_choice = choices ! (raw mod 3) \<and> bot_choice \<in> set choices \<and>
         map_of emoji_map user_choice = Some user_emoji \<and> map_of emoji_map bot_choice = Some bot_emoji \<and>
         rock_paper_scissors args raw =
           Inr [Reply (''You chose: '' @ user_emoji @ '' '' @ user_choice @ nl @
                       ''I chose: '' @ bot_emoji @ '' '' @ bot_choice @ nl @ nl @ verdict)] \<and>
         (user_choice = bot_choice \<longrightarrow> verdict = ''It's a tie! '' @ handshake) \<and>
         (spec_beats user_choice bot_choice \<longrightarrow> verdict = ''You win! '' @ party_popper) \<and>
         (spec_beats bot_choice user_choice \<longrightarrow> verdict = ''I win! '' @ robot_face) \<and>
         (user_choice = bot_choice \<or> spec_beats user_choice bot_choice \<or> spec_beats bot_choice user_choice)"
    by (intro exI [of _ ?user] exI [of _ ?bot] exI [of _ ue] exI [of _ be]
              exI [of _ "rps_result ?user ?bot"]) simp
next
  show "\<forall>bot_choice\<in>set choices. \<exists>raw'. choice choices raw' = Inr bot_choice"
    by (rule every_choice_drawn)
qed

theorem rock_paper_scissors_rules_witness:
  "rock_paper_scissors [''rock''] 2 =
     Inr [Reply (''You chose: '' @ raised_fist @ '' rock'' @ nl @
                 ''I chose: '' @ victory_hand @ '' scissors'' @ nl @ nl @
                 ''You win! '' @ party_popper)] \<and>
   rock_paper_scissors [''rock''] 0 =
     Inr [Reply (''You chose: '' @ raised_fist @ '' rock'' @ nl @
                 ''I chose: '' @ raised_fist @ '' rock'' @ nl @ nl @
                 ''It's a tie! '' @ handshake)] \<and>
   rock_paper_scissors [''Rock''] 1 =
     Inr [Reply (''You chose: '' @ raised_fist @ '' rock'' @ nl @
                 ''I chose: '' @ raised_hand @ '' paper'' @ nl @ nl @
                 ''I win! '' @ robot_face)] \<and>
   rock_paper_scissors [[CHR ''R'', CHR ''O'', CHR ''C'', CHR 0xE2, CHR 0x84, CHR 0xAA]] 2 =
     Inr [Reply (''You chose: '' @ raised_fist @ '' rock'' @ nl @
                 ''I chose: '' @ victory_hand @ '' scissors'' @ nl @ nl @
                 ''You win! '' @ party_popper)] \<and>
   rock_paper_scissors [] 1 = Inr [Reply rps_usage] \<and>
   rock_paper_scissors [''lizard''] 1 = Inr [Reply rps_usage]"
  using rock_paper_scissors_rules [of "[''rock'']" 2]
        rock_paper_scissors_rules [of "[''rock'']" 0]
        rock_paper_scissors_rules [of "[''Rock'']" 1]
        rock_paper_scissors_rules [of "[[CHR ''R'', CHR ''O'', CHR ''C'', CHR 0xE2, CHR 0x84, CHR 0xAA]]" 2]
        rock_paper_scissors_rules [of "[]" 1]
        rock_paper_scissors_rules [of "[''lizard'']" 1]
  by (simp add: choices_def lower_char_def kelvin_sign_def emoji_map_def spec_beats_def)

end
